theory Spec2Isabelle
  imports Complex_Main "HOL-Library.Multiset" "HOL-Library.FSet"
    "HOL-Library.Char_ord" "HOL-Library.List_Lexorder"
begin

section \<open>JavaScript values read by the components\<close>

text \<open>
  A JavaScript number is an IEEE double: a finite value, one of the two infinities, or
  NaN. Every finite double is a rational, and the sign of a rounded difference of two
  doubles is the sign of the exact difference, so finite values are kept as rationals;
  the comparator and the sort only ever look at the sign of a difference.
\<close>

datatype jsnum = NaN | NegInf | Fin rat | PosInf

text \<open>The binary \<open>-\<close> of JavaScript on numbers.\<close>

fun num_sub :: "jsnum \<Rightarrow> jsnum \<Rightarrow> jsnum" where
  "num_sub NaN _ = NaN"
| "num_sub _ NaN = NaN"
| "num_sub (Fin a) (Fin b) = Fin (a - b)"
| "num_sub (Fin _) PosInf = NegInf"
| "num_sub (Fin _) NegInf = PosInf"
| "num_sub PosInf PosInf = NaN"
| "num_sub PosInf _ = PosInf"
| "num_sub NegInf NegInf = NaN"
| "num_sub NegInf _ = NegInf"

text \<open>The unary \<open>-\<close> of JavaScript on numbers.\<close>

fun num_neg :: "jsnum \<Rightarrow> jsnum" where
  "num_neg NaN = NaN"
| "num_neg NegInf = PosInf"
| "num_neg (Fin a) = Fin (- a)"
| "num_neg PosInf = NegInf"

text \<open>
  The values a record attribute can hold: \<open>null\<close>, \<open>undefined\<close>, a string, a number, or
  anything else (a boolean, an object, ...), which the table only ever turns into a
  string; such a value is kept as an opaque tag.
\<close>

datatype jsval = JNull | JUndefined | JString string | JNumber jsnum | JOther nat

text \<open>The test \<open>v === null || v === undefined\<close>.\<close>

definition nullish :: "jsval \<Rightarrow> bool" where
  "nullish v = (v = JNull \<or> v = JUndefined)"

text \<open>
  A record (\<open>T extends Record<string, any>\<close>) is a list of attribute/value pairs; reading
  an attribute the record does not have yields \<open>undefined\<close>.
\<close>

type_synonym row = "(string \<times> jsval) list"

definition lookup :: "row \<Rightarrow> string \<Rightarrow> jsval" where
  "lookup r f = (case map_of r f of None \<Rightarrow> JUndefined | Some v \<Rightarrow> v)"

text \<open>
  The two functions of the JavaScript runtime that the comparator calls:
  \<open>String.prototype.localeCompare\<close> (its result is negative, zero or positive) and the
  conversion \<open>String(v)\<close>. Neither is code of the repository; both are parameters.
\<close>

record js_runtime =
  localeCompare :: "string \<Rightarrow> string \<Rightarrow> int"
  toStr :: "jsval \<Rightarrow> string"

section \<open>Array.prototype.sort\<close>

text \<open>
  \<open>Array.prototype.sort\<close> with a comparator, which belongs to the JavaScript runtime.
  The sort is stable, and a comparator result that is NaN counts as 0. The model is a
  stable insertion sort: each element in turn (the pivot) is put into the already sorted
  prefix, in front of the first element \<open>y\<close> for which \<open>comparefn(pivot, y) < 0\<close>. For
  a consistent comparator every stable sort returns this same sequence.
\<close>

fun negative :: "jsnum \<Rightarrow> bool" where
  "negative NaN = False"
| "negative NegInf = True"
| "negative (Fin q) = (q < 0)"
| "negative PosInf = False"

fun insert_pivot :: "('a \<Rightarrow> 'a \<Rightarrow> jsnum) \<Rightarrow> 'a \<Rightarrow> 'a list \<Rightarrow> 'a list" where
  "insert_pivot comparefn pivot [] = [pivot]"
| "insert_pivot comparefn pivot (y # ys) =
     (if negative (comparefn pivot y) then pivot # y # ys
      else y # insert_pivot comparefn pivot ys)"

definition array_sort :: "('a \<Rightarrow> 'a \<Rightarrow> jsnum) \<Rightarrow> 'a list \<Rightarrow> 'a list" where
  "array_sort comparefn xs = foldl (\<lambda>acc pivot. insert_pivot comparefn pivot acc) [] xs"

section \<open>DataTable: columns, sort state, sorted view\<close>

record Column =
  key :: string
  title :: string
  dataIndex :: string
  sortable :: "bool option"

datatype SortDirection = Asc | Desc

record SortState =
  skey :: "string option"
  direction :: "SortDirection option"

text \<open>The initial value of the \<open>sortState\<close> hook: \<open>{ key: null, direction: null }\<close>.\<close>

definition initialSortState :: SortState where
  "initialSortState = \<lparr>skey = None, direction = None\<rparr>"

text \<open>\<open>columns.find(col => col.key === k)\<close>.\<close>

definition find_column :: "Column list \<Rightarrow> string \<Rightarrow> Column option" where
  "find_column columns k = find (\<lambda>col. key col = k) columns"

text \<open>
  The comparator handed to \<open>sort\<close> (DataTable.tsx, lines 66 to 88); \<open>dir\<close> is
  \<open>sortState.direction\<close>, which is not null where the comparator runs.
\<close>

definition with_direction :: "SortDirection \<Rightarrow> jsnum \<Rightarrow> jsnum" where
  "with_direction dir comparison = (if dir = Asc then comparison else num_neg comparison)"

definition compare_rows :: "js_runtime \<Rightarrow> SortDirection \<Rightarrow> Column \<Rightarrow> row \<Rightarrow> row \<Rightarrow> jsnum" where
  "compare_rows rt dir column a b =
     (let aValue = lookup a (dataIndex column);
          bValue = lookup b (dataIndex column)
      in if nullish aValue then Fin 1
         else if nullish bValue then Fin (- 1)
         else (case (aValue, bValue) of
                 (JString s, JString t) \<Rightarrow>
                   with_direction dir (Fin (of_int (localeCompare rt s t)))
               | (JNumber m, JNumber n) \<Rightarrow>
                   with_direction dir (num_sub m n)
               | _ \<Rightarrow>
                   with_direction dir
                     (Fin (of_int (localeCompare rt (toStr rt aValue) (toStr rt bValue))))))"

text \<open>
  The memoised \<open>sortedData\<close> (lines 58 to 89). \<open>!sortState.key\<close> is true for \<open>null\<close> and
  for the empty string.
\<close>

definition sortedData :: "js_runtime \<Rightarrow> row list \<Rightarrow> Column list \<Rightarrow> SortState \<Rightarrow> row list" where
  "sortedData rt dat columns sortState =
     (case skey sortState of
        None \<Rightarrow> dat
      | Some k \<Rightarrow>
          if k = [] then dat
          else (case direction sortState of
                  None \<Rightarrow> dat
                | Some dir \<Rightarrow>
                    (case find_column columns k of
                       None \<Rightarrow> dat
                     | Some column \<Rightarrow> array_sort (compare_rows rt dir column) dat)))"

text \<open>\<open>handleSort\<close> (lines 91 to 105), as the function from the previous sort state to the next.\<close>

definition handleSort :: "Column list \<Rightarrow> string \<Rightarrow> SortState \<Rightarrow> SortState" where
  "handleSort columns columnKey prevState =
     (case find_column columns columnKey of
        None \<Rightarrow> prevState
      | Some column \<Rightarrow>
          if sortable column \<noteq> Some True then prevState
          else if skey prevState = Some columnKey \<and> direction prevState = Some Asc
               then \<lparr>skey = Some columnKey, direction = Some Desc\<rparr>
          else if skey prevState = Some columnKey \<and> direction prevState = Some Desc
               then \<lparr>skey = None, direction = None\<rparr>
          else \<lparr>skey = Some columnKey, direction = Some Asc\<rparr>)"

section \<open>The sorted view over a store of arrays\<close>

text \<open>
  Arrays are objects: \<open>data\<close> is a reference, \<open>[...data]\<close> allocates a new array with the
  same elements, and \<open>sort\<close> reorders the array it is called on and returns that same
  reference. The store is the list of all arrays; a reference is a position in it.
\<close>

type_synonym store = "row list list"

definition spread_copy :: "store \<Rightarrow> nat \<Rightarrow> nat \<times> store" where
  "spread_copy h a = (length h, h @ [h ! a])"

definition sort_in_place :: "(row \<Rightarrow> row \<Rightarrow> jsnum) \<Rightarrow> store \<Rightarrow> nat \<Rightarrow> nat \<times> store" where
  "sort_in_place comparefn h a = (a, h[a := array_sort comparefn (h ! a)])"

text \<open>\<open>sortedData\<close> on references: the reference it returns and the store afterwards.\<close>

definition sortedData_ref ::
  "js_runtime \<Rightarrow> store \<Rightarrow> nat \<Rightarrow> Column list \<Rightarrow> SortState \<Rightarrow> nat \<times> store" where
  "sortedData_ref rt h dat columns sortState =
     (case skey sortState of
        None \<Rightarrow> (dat, h)
      | Some k \<Rightarrow>
          if k = [] then (dat, h)
          else (case direction sortState of
                  None \<Rightarrow> (dat, h)
                | Some dir \<Rightarrow>
                    (case find_column columns k of
                       None \<Rightarrow> (dat, h)
                     | Some column \<Rightarrow>
                         (case spread_copy h dat of
                            (copy, h1) \<Rightarrow> sort_in_place (compare_rows rt dir column) h1 copy))))"

section \<open>DataTable: properties, state, selection and row activation\<close>

text \<open>
  \<open>rowKey\<close> is an attribute name or a function from the record to its key.
\<close>

datatype RowKey = KeyName string | KeyFn "row \<Rightarrow> jsval"

text \<open>
  The properties of the component that its logic reads. An optional property that has a
  default is an \<open>option\<close>; for the callbacks \<open>onRowSelect\<close> and \<open>onRowClick\<close> the
  model keeps whether the owner supplied one, and every call is recorded as a
  notification.
\<close>

record DataTableProps =
  data :: "row list"
  columns :: "Column list"
  loading :: "bool option"
  selectable :: "bool option"
  onRowSelect :: bool
  emptyMessage :: "string option"
  rowKey :: "RowKey option"
  onRowClick :: bool

text \<open>The defaults of the destructured properties (lines 38 to 43).\<close>

definition prop_loading :: "DataTableProps \<Rightarrow> bool" where
  "prop_loading props = (case loading props of None \<Rightarrow> False | Some b \<Rightarrow> b)"

definition prop_selectable :: "DataTableProps \<Rightarrow> bool" where
  "prop_selectable props = (case selectable props of None \<Rightarrow> False | Some b \<Rightarrow> b)"

definition prop_emptyMessage :: "DataTableProps \<Rightarrow> string" where
  "prop_emptyMessage props =
     (case emptyMessage props of None \<Rightarrow> ''No data available'' | Some m \<Rightarrow> m)"

definition prop_rowKey :: "DataTableProps \<Rightarrow> RowKey" where
  "prop_rowKey props = (case rowKey props of None \<Rightarrow> KeyName ''id'' | Some rk \<Rightarrow> rk)"

text \<open>The two state hooks: the set of selected row keys and the sort state.\<close>

record DataTableState =
  selectedRows :: "jsval fset"
  sortState :: SortState

definition initialState :: DataTableState where
  "initialState = \<lparr>selectedRows = {||}, sortState = initialSortState\<rparr>"

datatype notification = RowSelect "row list" | RowClick row nat

text \<open>\<open>getRowKey\<close> (lines 50 to 55); \<open>??\<close> falls back to the index on \<open>null\<close> and \<open>undefined\<close>.\<close>

definition getRowKey :: "RowKey \<Rightarrow> row \<Rightarrow> nat \<Rightarrow> jsval" where
  "getRowKey rk rcd index =
     (case rk of
        KeyFn f \<Rightarrow> f rcd
      | KeyName n \<Rightarrow>
          if nullish (lookup rcd n) then JNumber (Fin (of_nat index)) else lookup rcd n)"

text \<open>The rows on display: \<open>sortedData\<close> for the current properties and state.\<close>

definition displayed :: "js_runtime \<Rightarrow> DataTableProps \<Rightarrow> DataTableState \<Rightarrow> row list" where
  "displayed rt props st = sortedData rt (data props) (columns props) (sortState st)"

text \<open>\<open>sortedData.map((item, index) => getRowKey(item, index))\<close>.\<close>

definition row_keys :: "RowKey \<Rightarrow> row list \<Rightarrow> jsval list" where
  "row_keys rk rows = map (\<lambda>(index, item). getRowKey rk item index) (enumerate 0 rows)"

text \<open>\<open>sortedData.filter((item, idx) => selection.has(getRowKey(item, idx)))\<close>.\<close>

definition selected_records :: "RowKey \<Rightarrow> jsval fset \<Rightarrow> row list \<Rightarrow> row list" where
  "selected_records rk selection rows =
     map snd (filter (\<lambda>(idx, item). getRowKey rk item idx |\<in>| selection) (enumerate 0 rows))"

text \<open>\<open>onRowSelect?.(rows)\<close>: a call when the owner supplied the callback.\<close>

definition notify_select :: "DataTableProps \<Rightarrow> row list \<Rightarrow> notification list" where
  "notify_select props rows = (if onRowSelect props then [RowSelect rows] else [])"

text \<open>\<open>handleSelectAll\<close> (lines 107 to 116): the new state and the calls to the owner.\<close>

definition handleSelectAll ::
  "js_runtime \<Rightarrow> DataTableProps \<Rightarrow> DataTableState \<Rightarrow> DataTableState \<times> notification list" where
  "handleSelectAll rt props st =
     (if fcard (selectedRows st) = length (displayed rt props st)
      then (st\<lparr>selectedRows := {||}\<rparr>, notify_select props [])
      else (st\<lparr>selectedRows := fset_of_list (row_keys (prop_rowKey props) (displayed rt props st))\<rparr>,
            notify_select props (displayed rt props st)))"

text \<open>\<open>handleRowSelect\<close> (lines 118 to 134).\<close>

definition handleRowSelect ::
  "js_runtime \<Rightarrow> DataTableProps \<Rightarrow> DataTableState \<Rightarrow> row \<Rightarrow> nat
     \<Rightarrow> DataTableState \<times> notification list" where
  "handleRowSelect rt props st rcd index =
     (let k = getRowKey (prop_rowKey props) rcd index;
          newSelectedRows =
            (if k |\<in>| selectedRows st then selectedRows st |-| {|k|}
             else finsert k (selectedRows st));
          selectedData = selected_records (prop_rowKey props) newSelectedRows (displayed rt props st)
      in (st\<lparr>selectedRows := newSelectedRows\<rparr>, notify_select props selectedData))"

text \<open>
  A click event, as far as \<open>handleRowClick\<close> reads it: the target element and its
  ancestors, innermost first. \<open>closest\<close> returns the first of them that matches the
  selector \<open>input[type="checkbox"]\<close>, or nothing.
\<close>

record element =
  localName :: string
  typeAttr :: "string option"

record MouseEvent =
  target :: element
  ancestors :: "element list"

definition matches_checkbox :: "element \<Rightarrow> bool" where
  "matches_checkbox e = (localName e = ''input'' \<and> typeAttr e = Some ''checkbox'')"

definition closest_checkbox :: "MouseEvent \<Rightarrow> element option" where
  "closest_checkbox ev = find matches_checkbox (target ev # ancestors ev)"

text \<open>\<open>handleRowClick\<close> (lines 136 to 142).\<close>

definition handleRowClick :: "DataTableProps \<Rightarrow> row \<Rightarrow> nat \<Rightarrow> MouseEvent \<Rightarrow> notification list" where
  "handleRowClick props rcd index ev =
     (if closest_checkbox ev \<noteq> None then []
      else if onRowClick props then [RowClick rcd index] else [])"

text \<open>
  What the component returns (lines 184 to 312), without markup and styling: the busy
  placeholder, the empty state with its message, or the table with the state of the
  header checkbox (when selectable) and one body row per displayed record, each with
  its key and whether it is selected.
\<close>

datatype DataTableView =
  BusyPlaceholder
| EmptyState string
| PopulatedTable "bool option" "(row \<times> jsval \<times> bool) list"

definition DataTable_render :: "js_runtime \<Rightarrow> DataTableProps \<Rightarrow> DataTableState \<Rightarrow> DataTableView" where
  "DataTable_render rt props st =
     (if prop_loading props then BusyPlaceholder
      else if length (data props) = 0 then EmptyState (prop_emptyMessage props)
      else PopulatedTable
             (if prop_selectable props
              then Some (fcard (selectedRows st) = length (displayed rt props st)
                         \<and> length (displayed rt props st) > 0)
              else None)
             (map (\<lambda>(index, rcd).
                     (rcd, getRowKey (prop_rowKey props) rcd index,
                      getRowKey (prop_rowKey props) rcd index |\<in>| selectedRows st))
                  (enumerate 0 (displayed rt props st))))"

text \<open>
  The handlers the table attaches to the body row at position \<open>index\<close> of the displayed
  rows: \<open>onClick\<close> of the row (line 278) and \<open>onChange\<close> of its checkbox (line 285).
\<close>

definition row_onClick ::
  "js_runtime \<Rightarrow> DataTableProps \<Rightarrow> DataTableState \<Rightarrow> nat \<Rightarrow> MouseEvent \<Rightarrow> notification list" where
  "row_onClick rt props st index ev =
     handleRowClick props (displayed rt props st ! index) index ev"

definition row_checkbox_onChange ::
  "js_runtime \<Rightarrow> DataTableProps \<Rightarrow> DataTableState \<Rightarrow> nat \<Rightarrow> DataTableState \<times> notification list" where
  "row_checkbox_onChange rt props st index =
     handleRowSelect rt props st (displayed rt props st ! index) index"

text \<open>Every displayed row has its key in the selection.\<close>

definition all_selected :: "RowKey \<Rightarrow> jsval fset \<Rightarrow> row list \<Rightarrow> bool" where
  "all_selected rk selection rows = list_all (\<lambda>k. k |\<in>| selection) (row_keys rk rows)"

text \<open>The click's target is a checkbox input or lies inside one.\<close>

definition inside_checkbox :: "MouseEvent \<Rightarrow> bool" where
  "inside_checkbox ev = list_ex matches_checkbox (target ev # ancestors ev)"

section \<open>InputField\<close>

datatype InputType = Text | Email | Password | Number | Tel | Url

text \<open>
  The properties the logic reads (\<open>valueProp\<close> is \<open>value\<close>, \<open>inputType\<close> is \<open>type\<close>,
  \<open>fieldLoading\<close> is \<open>loading\<close>), and whether \<open>onChange\<close> was supplied.
\<close>

record InputFieldProps =
  valueProp :: "string option"
  onChange :: bool
  disabled :: "bool option"
  showClearButton :: "bool option"
  inputType :: "InputType option"
  fieldLoading :: "bool option"

definition flag :: "bool option \<Rightarrow> bool" where
  "flag b = (case b of None \<Rightarrow> False | Some v \<Rightarrow> v)"

definition prop_type :: "InputFieldProps \<Rightarrow> InputType" where
  "prop_type props = (case inputType props of None \<Rightarrow> Text | Some t \<Rightarrow> t)"

record InputFieldState =
  showPassword :: bool
  inputValue :: string

text \<open>
  The initial values of the two state hooks (lines 44 and 45): \<open>useState(false)\<close> and
  \<open>useState(value || '')\<close>. They are read on the first render only; later renders keep
  the state and take new properties.
\<close>

definition mount :: "InputFieldProps \<Rightarrow> InputFieldState" where
  "mount props =
     \<lparr>showPassword = False,
      inputValue = (case valueProp props of None \<Rightarrow> [] | Some v \<Rightarrow> v)\<rparr>"

datatype change_event = ChangeEvent string

definition notify_change :: "InputFieldProps \<Rightarrow> string \<Rightarrow> change_event list" where
  "notify_change props v = (if onChange props then [ChangeEvent v] else [])"

text \<open>\<open>handleChange\<close>, \<open>handleClear\<close> and \<open>togglePasswordVisibility\<close> (lines 51 to 69).\<close>

definition handleChange ::
  "InputFieldProps \<Rightarrow> InputFieldState \<Rightarrow> string \<Rightarrow> InputFieldState \<times> change_event list" where
  "handleChange props st newValue = (st\<lparr>inputValue := newValue\<rparr>, notify_change props newValue)"

definition handleClear ::
  "InputFieldProps \<Rightarrow> InputFieldState \<Rightarrow> InputFieldState \<times> change_event list" where
  "handleClear props st = (st\<lparr>inputValue := []\<rparr>, notify_change props [])"

definition togglePasswordVisibility :: "InputFieldState \<Rightarrow> InputFieldState" where
  "togglePasswordVisibility st = st\<lparr>showPassword := \<not> showPassword st\<rparr>"

text \<open>
  What a render shows (lines 48, 49 and 163 to 226): the \<open>type\<close> and \<open>value\<close> of the
  input element, whether it is disabled, and which of the spinner, the clear button and
  the reveal toggle are in the icons container.
\<close>

record InputFieldView =
  actualType :: InputType
  shownValue :: string
  inputDisabled :: bool
  spinnerShown :: bool
  clearShown :: bool
  toggleShown :: bool

definition isPassword :: "InputFieldProps \<Rightarrow> bool" where
  "isPassword props = (prop_type props = Password)"

definition icons_container :: "InputFieldProps \<Rightarrow> InputFieldState \<Rightarrow> bool" where
  "icons_container props st =
     ((flag (showClearButton props) \<and> inputValue st \<noteq> [])
      \<or> isPassword props \<or> flag (fieldLoading props))"

definition InputField_render :: "InputFieldProps \<Rightarrow> InputFieldState \<Rightarrow> InputFieldView" where
  "InputField_render props st =
     \<lparr>actualType =
        (if isPassword props then (if showPassword st then Text else Password)
         else prop_type props),
      shownValue = (case valueProp props of Some v \<Rightarrow> v | None \<Rightarrow> inputValue st),
      inputDisabled = (flag (disabled props) \<or> flag (fieldLoading props)),
      spinnerShown = (icons_container props st \<and> flag (fieldLoading props)),
      clearShown =
        (icons_container props st \<and>
         (flag (showClearButton props) \<and> inputValue st \<noteq> [] \<and> \<not> flag (fieldLoading props))),
      toggleShown =
        (icons_container props st \<and> (isPassword props \<and> \<not> flag (fieldLoading props)))\<rparr>"

section \<open>Reading the sorted view\<close>







text \<open>
  A runtime for concrete inputs: \<open>localeCompare\<close> by code points. The examples compare
  strings only, so its \<open>String(v)\<close> is never reached on another value.
\<close>

definition codepoint_compare :: "string \<Rightarrow> string \<Rightarrow> int" where
  "codepoint_compare s t = (if s < t then - 1 else if s = t then 0 else 1)"

definition example_runtime :: js_runtime where
  "example_runtime =
     \<lparr>localeCompare = codepoint_compare,
      toStr = (\<lambda>v. case v of JString s \<Rightarrow> s | _ \<Rightarrow> [])\<rparr>"

section \<open>Concrete inputs\<close>

text \<open>
  The users and the sortable name column of the components' tests, table properties
  over a given data sequence, a table state with a given selection and no sort, and
  properties of an input field with the clear button enabled.
\<close>

definition testUsers :: "row list" where
  "testUsers =
     [[(''id'', JNumber (Fin 1)), (''name'', JString ''John Doe'')],
      [(''id'', JNumber (Fin 2)), (''name'', JString ''Jane Smith'')],
      [(''id'', JNumber (Fin 3)), (''name'', JString ''Bob Johnson'')]]"

definition testColumns :: "Column list" where
  "testColumns =
     [\<lparr>key = ''name'', title = ''Name'', dataIndex = ''name'', sortable = Some True\<rparr>]"

definition tableProps :: "row list \<Rightarrow> DataTableProps" where
  "tableProps rows =
     \<lparr>data = rows, columns = testColumns, loading = None, selectable = Some True,
      onRowSelect = True, emptyMessage = None, rowKey = None, onRowClick = True\<rparr>"

definition selection :: "jsval fset \<Rightarrow> DataTableState" where
  "selection sel = \<lparr>selectedRows = sel, sortState = initialSortState\<rparr>"

definition fieldProps :: "InputType \<Rightarrow> string option \<Rightarrow> InputFieldProps" where
  "fieldProps t v =
     \<lparr>valueProp = v, onChange = True, disabled = None, showClearButton = Some True,
      inputType = Some t, fieldLoading = None\<rparr>"

section \<open>Sort cycle\<close>

lemma handleSort_cycle:
  assumes "find_column cols k = Some column" and "sortable column = Some True"
  shows "handleSort cols k initialSortState = \<lparr>skey = Some k, direction = Some Asc\<rparr>"
    and "handleSort cols k \<lparr>skey = Some k, direction = Some Asc\<rparr>
           = \<lparr>skey = Some k, direction = Some Desc\<rparr>"
    and "handleSort cols k \<lparr>skey = Some k, direction = Some Desc\<rparr> = initialSortState"
  using assms by (simp_all add: handleSort_def initialSortState_def)

lemma handleSort_not_sortable:
  assumes "find_column cols k = None \<or>
           (\<exists>column. find_column cols k = Some column \<and> sortable column \<noteq> Some True)"
  shows "handleSort cols k st = st"
  using assms by (auto simp: handleSort_def)

lemma sortedData_initial: "sortedData rt dat cols initialSortState = dat"
  by (simp add: sortedData_def initialSortState_def)

text \<open>
  Claim C1. Starting from the no-sort state, three consecutive sort activations on one
  column give the no-sort state again, and the displayed rows are then the input
  sequence itself; in the no-sort state the displayed sequence is the input sequence.
\<close>

theorem sort_cycle_closure:
  "handleSort cols k (handleSort cols k (handleSort cols k initialSortState))
     = initialSortState
   \<and> sortedData rt dat cols
       (handleSort cols k (handleSort cols k (handleSort cols k initialSortState)))
     = dat
   \<and> sortedData rt dat cols initialSortState = dat"
proof (cases "\<exists>column. find_column cols k = Some column \<and> sortable column = Some True")
  case True
  then obtain column where c: "find_column cols k = Some column" "sortable column = Some True"
    by blast
  show ?thesis
    by (simp add: handleSort_cycle[OF c] sortedData_initial)
next
  case False
  then have "find_column cols k = None \<or>
             (\<exists>column. find_column cols k = Some column \<and> sortable column \<noteq> Some True)"
    by (cases "find_column cols k") auto
  then have "\<And>st. handleSort cols k st = st"
    by (rule handleSort_not_sortable)
  then show ?thesis
    by (simp add: sortedData_initial)
qed

text \<open>
  The example of the specification: Bob and Ann sorted by name are Ann, Bob after one
  activation, Bob, Ann after two, and in input order after three.
\<close>

theorem sort_cycle_closure_witness:
  "sortedData example_runtime
     [[(''id'', JNumber (Fin 1)), (''name'', JString ''Bob'')],
      [(''id'', JNumber (Fin 2)), (''name'', JString ''Ann'')]]
     testColumns (handleSort testColumns ''name'' initialSortState)
   = [[(''id'', JNumber (Fin 2)), (''name'', JString ''Ann'')],
      [(''id'', JNumber (Fin 1)), (''name'', JString ''Bob'')]]
   \<and> sortedData example_runtime
     [[(''id'', JNumber (Fin 1)), (''name'', JString ''Bob'')],
      [(''id'', JNumber (Fin 2)), (''name'', JString ''Ann'')]]
     testColumns (handleSort testColumns ''name'' (handleSort testColumns ''name'' initialSortState))
   = [[(''id'', JNumber (Fin 1)), (''name'', JString ''Bob'')],
      [(''id'', JNumber (Fin 2)), (''name'', JString ''Ann'')]]
   \<and> handleSort testColumns ''name''
       (handleSort testColumns ''name'' (handleSort testColumns ''name'' initialSortState))
     = initialSortState
   \<and> sortedData example_runtime
     [[(''id'', JNumber (Fin 1)), (''name'', JString ''Bob'')],
      [(''id'', JNumber (Fin 2)), (''name'', JString ''Ann'')]]
     testColumns
     (handleSort testColumns ''name''
        (handleSort testColumns ''name'' (handleSort testColumns ''name'' initialSortState)))
   = [[(''id'', JNumber (Fin 1)), (''name'', JString ''Bob'')],
      [(''id'', JNumber (Fin 2)), (''name'', JString ''Ann'')]]"
proof -
  let ?dat = "[[(''id'', JNumber (Fin 1)), (''name'', JString ''Bob'')],
               [(''id'', JNumber (Fin 2)), (''name'', JString ''Ann'')]]"
  have "sortedData example_runtime ?dat testColumns
          (handleSort testColumns ''name'' initialSortState)
        = [[(''id'', JNumber (Fin 2)), (''name'', JString ''Ann'')],
           [(''id'', JNumber (Fin 1)), (''name'', JString ''Bob'')]]"
    and "sortedData example_runtime ?dat testColumns
          (handleSort testColumns ''name'' (handleSort testColumns ''name'' initialSortState))
        = ?dat"
    by (simp_all add: handleSort_def initialSortState_def sortedData_def find_column_def
        testColumns_def array_sort_def compare_rows_def lookup_def nullish_def
        example_runtime_def codepoint_compare_def with_direction_def)
  then show ?thesis
    using sort_cycle_closure[of testColumns "''name''" example_runtime ?dat] by simp
qed

section \<open>The insertion sort: rearrangement and order\<close>












section \<open>Order of the sorted view\<close>




















section \<open>The caller's array\<close>

text \<open>
  Claim C10. Whatever the sort state, computing the sorted view leaves the caller's
  \<open>data\<close> array, and every other array of the store, as it was: when it sorts, it sorts
  a newly allocated copy. The array it returns holds the sorted view.
\<close>

theorem sorted_view_keeps_data_array:
  assumes "dat < length h"
  shows "(case sortedData_ref rt h dat cols st of
            (res, h') \<Rightarrow>
              h' ! dat = h ! dat \<and> take (length h) h' = h \<and> res < length h'
              \<and> h' ! res = sortedData rt (h ! dat) cols st)"
  using assms
  by (auto simp: sortedData_ref_def sortedData_def spread_copy_def sort_in_place_def
      nth_append split: option.splits)

text \<open>Sorting a two-row array held at reference 0: the result is a new array at 1.\<close>

theorem sorted_view_keeps_data_array_witness:
  "sortedData_ref example_runtime
     [[[(''id'', JNumber (Fin 1)), (''name'', JString ''Bob'')],
       [(''id'', JNumber (Fin 2)), (''name'', JString ''Ann'')]]]
     0
     [\<lparr>key = ''name'', title = ''Name'', dataIndex = ''name'', sortable = Some True\<rparr>]
     \<lparr>skey = Some ''name'', direction = Some Asc\<rparr>
   = (1, [[[(''id'', JNumber (Fin 1)), (''name'', JString ''Bob'')],
           [(''id'', JNumber (Fin 2)), (''name'', JString ''Ann'')]],
          [[(''id'', JNumber (Fin 2)), (''name'', JString ''Ann'')],
           [(''id'', JNumber (Fin 1)), (''name'', JString ''Bob'')]]])
   \<and> (case sortedData_ref example_runtime
     [[[(''id'', JNumber (Fin 1)), (''name'', JString ''Bob'')],
       [(''id'', JNumber (Fin 2)), (''name'', JString ''Ann'')]]]
     0
     [\<lparr>key = ''name'', title = ''Name'', dataIndex = ''name'', sortable = Some True\<rparr>]
     \<lparr>skey = Some ''name'', direction = Some Asc\<rparr> of
       (res, h') \<Rightarrow> h' ! 0 = [[(''id'', JNumber (Fin 1)), (''name'', JString ''Bob'')],
                               [(''id'', JNumber (Fin 2)), (''name'', JString ''Ann'')]])"
proof -
  let ?h = "[[[(''id'', JNumber (Fin 1)), (''name'', JString ''Bob'')],
       [(''id'', JNumber (Fin 2)), (''name'', JString ''Ann'')]]]"
  let ?c = "\<lparr>key = ''name'', title = ''Name'', dataIndex = ''name'', sortable = Some True\<rparr>"
  let ?st = "\<lparr>skey = Some ''name'', direction = Some Asc\<rparr>"
  have in_store: "(0::nat) < length ?h" by simp
  have "sortedData_ref example_runtime ?h 0 [?c] ?st
   = (1, [[[(''id'', JNumber (Fin 1)), (''name'', JString ''Bob'')],
           [(''id'', JNumber (Fin 2)), (''name'', JString ''Ann'')]],
          [[(''id'', JNumber (Fin 2)), (''name'', JString ''Ann'')],
           [(''id'', JNumber (Fin 1)), (''name'', JString ''Bob'')]]])"
    by (simp add: sortedData_ref_def find_column_def spread_copy_def sort_in_place_def
        array_sort_def compare_rows_def lookup_def nullish_def example_runtime_def
        codepoint_compare_def with_direction_def)
  moreover have "(case sortedData_ref example_runtime ?h 0 [?c] ?st of
       (res, h') \<Rightarrow> h' ! 0 = ?h ! 0)"
    using sorted_view_keeps_data_array[OF in_store, of example_runtime "[?c]" ?st]
    by (simp add: case_prod_beta)
  ultimately show ?thesis by simp
qed

section \<open>Selection\<close>

lemma displayed_selection_update [simp]:
  "displayed rt props (st\<lparr>selectedRows := sel\<rparr>) = displayed rt props st"
  by (simp add: displayed_def)

lemma fcard_fset_of_list_distinct: "distinct ks \<Longrightarrow> fcard (fset_of_list ks) = length ks"
  by (simp add: fcard.rep_eq fset_of_list.rep_eq distinct_card)

lemma length_row_keys [simp]: "length (row_keys rk rows) = length rows"
  by (simp add: row_keys_def)

lemma all_selected_iff: "all_selected rk sel rows = (fset_of_list (row_keys rk rows) |\<subseteq>| sel)"
  by (auto simp: all_selected_def list_all_iff fset_of_list.rep_eq less_eq_fset.rep_eq)

lemma size_test_iff_all_selected:
  assumes "distinct (row_keys rk rows)" and "sel |\<subseteq>| fset_of_list (row_keys rk rows)"
  shows "(fcard sel = length rows) = all_selected rk sel rows"
proof
  assume "fcard sel = length rows"
  then have "card (fset sel) = card (fset (fset_of_list (row_keys rk rows)))"
    using fcard_fset_of_list_distinct[OF assms(1)] by (simp add: fcard.rep_eq)
  moreover have "fset sel \<subseteq> fset (fset_of_list (row_keys rk rows))"
    using assms(2) by (simp add: less_eq_fset.rep_eq)
  ultimately have "fset sel = fset (fset_of_list (row_keys rk rows))"
    by (intro card_subset_eq) simp_all
  then show "all_selected rk sel rows"
    by (simp add: all_selected_iff less_eq_fset.rep_eq)
next
  assume "all_selected rk sel rows"
  then have "sel = fset_of_list (row_keys rk rows)"
    using assms(2) by (simp add: all_selected_iff)
  then show "fcard sel = length rows"
    using fcard_fset_of_list_distinct[OF assms(1)] by simp
qed

text \<open>
  Where the size test of \<open>handleSelectAll\<close> agrees with membership: when the displayed
  rows have pairwise different keys and every key of the selection is the key of a
  displayed row, the toggle clears the selection (and reports no records) if every
  displayed row is selected, and otherwise selects every displayed row (and reports all
  of them, in display order); once all rows are selected, toggling again yields the
  empty selection.
\<close>

lemma header_checkbox_toggle:
  assumes "distinct (row_keys (prop_rowKey props) (displayed rt props st))"
    and "selectedRows st |\<subseteq>| fset_of_list (row_keys (prop_rowKey props) (displayed rt props st))"
  shows "handleSelectAll rt props st =
           (if all_selected (prop_rowKey props) (selectedRows st) (displayed rt props st)
            then (st\<lparr>selectedRows := {||}\<rparr>, notify_select props [])
            else (st\<lparr>selectedRows :=
                       fset_of_list (row_keys (prop_rowKey props) (displayed rt props st))\<rparr>,
                  notify_select props (displayed rt props st)))
       \<and> all_selected (prop_rowKey props)
            (fset_of_list (row_keys (prop_rowKey props) (displayed rt props st)))
            (displayed rt props st)
       \<and> selectedRows (fst (handleSelectAll rt props
            (st\<lparr>selectedRows :=
                  fset_of_list (row_keys (prop_rowKey props) (displayed rt props st))\<rparr>))) = {||}"
proof -
  have one: "(fcard (selectedRows st) = length (displayed rt props st))
        = all_selected (prop_rowKey props) (selectedRows st) (displayed rt props st)"
    by (rule size_test_iff_all_selected[OF assms])
  have two: "fcard (fset_of_list (row_keys (prop_rowKey props) (displayed rt props st)))
        = length (displayed rt props st)"
    using fcard_fset_of_list_distinct[OF assms(1)] by simp
  show ?thesis
    by (simp add: handleSelectAll_def one two all_selected_iff)
qed


lemmas table_eval =
  tableProps_def selection_def testUsers_def testColumns_def displayed_def sortedData_def
  initialSortState_def prop_rowKey_def row_keys_def getRowKey_def lookup_def nullish_def
  notify_select_def selected_records_def all_selected_def

text \<open>Three users with the first selected: one toggle selects all, the next clears.\<close>

lemma header_checkbox_toggle_example:
  "handleSelectAll example_runtime (tableProps testUsers) (selection {|JNumber (Fin 1)|})
     = (selection {|JNumber (Fin 1), JNumber (Fin 2), JNumber (Fin 3)|}, [RowSelect testUsers])
   \<and> selectedRows (fst (handleSelectAll example_runtime (tableProps testUsers)
        (selection {|JNumber (Fin 1), JNumber (Fin 2), JNumber (Fin 3)|}))) = {||}"
proof -
  have keys: "row_keys (prop_rowKey (tableProps testUsers))
                (displayed example_runtime (tableProps testUsers) (selection {|JNumber (Fin 1)|}))
              = [JNumber (Fin 1), JNumber (Fin 2), JNumber (Fin 3)]"
    by (simp add: table_eval)
  have d: "distinct (row_keys (prop_rowKey (tableProps testUsers))
                (displayed example_runtime (tableProps testUsers) (selection {|JNumber (Fin 1)|})))"
    unfolding keys by simp
  have s: "selectedRows (selection {|JNumber (Fin 1)|}) |\<subseteq>|
             fset_of_list (row_keys (prop_rowKey (tableProps testUsers))
                (displayed example_runtime (tableProps testUsers) (selection {|JNumber (Fin 1)|})))"
    unfolding keys by (simp add: selection_def)
  show ?thesis
    using header_checkbox_toggle[OF d s]
    unfolding keys by (simp add: table_eval)
qed

text \<open>
  Claim C2 on the code. \<open>handleSelectAll\<close> compares the size of the selection with the
  number of displayed rows, where the rows themselves are checked by the membership of
  their keys. Tick the user with id 1, then let the owner narrow the data to the user
  with id 3: the selection still holds the key 1. The header checkbox is rendered
  checked and the only row unchecked; the toggle clears the selection and reports no
  records, where the claim has it select the row. With the keys 1 and 3 selected the
  only row is selected, yet the toggle selects it again, where the claim has it clear
  the selection.
\<close>

theorem header_checkbox_stale_selection:
  "\<not> all_selected (KeyName ''id'') {|JNumber (Fin 1)|}
        [[(''id'', JNumber (Fin 3)), (''name'', JString ''Bob Johnson'')]]
   \<and> DataTable_render example_runtime
        (tableProps [[(''id'', JNumber (Fin 3)), (''name'', JString ''Bob Johnson'')]])
        (selection {|JNumber (Fin 1)|})
      = PopulatedTable (Some True)
          [([(''id'', JNumber (Fin 3)), (''name'', JString ''Bob Johnson'')],
            JNumber (Fin 3), False)]
   \<and> handleSelectAll example_runtime
        (tableProps [[(''id'', JNumber (Fin 3)), (''name'', JString ''Bob Johnson'')]])
        (selection {|JNumber (Fin 1)|})
      = (selection {||}, [RowSelect []])
   \<and> all_selected (KeyName ''id'') {|JNumber (Fin 1), JNumber (Fin 3)|}
        [[(''id'', JNumber (Fin 3)), (''name'', JString ''Bob Johnson'')]]
   \<and> handleSelectAll example_runtime
        (tableProps [[(''id'', JNumber (Fin 3)), (''name'', JString ''Bob Johnson'')]])
        (selection {|JNumber (Fin 1), JNumber (Fin 3)|})
      = (selection {|JNumber (Fin 3)|},
         [RowSelect [[(''id'', JNumber (Fin 3)), (''name'', JString ''Bob Johnson'')]]])"
  by (simp add: handleSelectAll_def DataTable_render_def prop_loading_def prop_selectable_def
      table_eval fcard_finsert_if fcard_fempty)

text \<open>
  The same size test on other inputs: a selection that holds one key of no displayed
  row is cleared although the only row is not selected; and two rows with the same key
  are never all selected by size, so the toggle after selecting all selects all again.
\<close>

lemma header_checkbox_size_test:
  "\<not> all_selected (KeyName ''id'') {|JNumber (Fin 99)|} [[(''id'', JNumber (Fin 1))]]
   \<and> handleSelectAll example_runtime (tableProps [[(''id'', JNumber (Fin 1))]])
        (selection {|JNumber (Fin 99)|})
      = (selection {||}, [RowSelect []])
   \<and> handleSelectAll example_runtime
        (tableProps [[(''id'', JNumber (Fin 1)), (''name'', JString ''a'')],
                     [(''id'', JNumber (Fin 1)), (''name'', JString ''b'')]])
        (selection {|JNumber (Fin 1)|})
      = (selection {|JNumber (Fin 1)|},
         [RowSelect [[(''id'', JNumber (Fin 1)), (''name'', JString ''a'')],
                     [(''id'', JNumber (Fin 1)), (''name'', JString ''b'')]]])"
  by (simp add: handleSelectAll_def table_eval fcard_finsert_if fcard_fempty)

lemma filter_distinct_image:
  assumes "distinct (map f ys)" and "y \<in> set ys"
  shows "filter (\<lambda>p. f p = f y) ys = [y]"
  using assms
proof (induction ys)
  case Nil
  then show ?case by simp
next
  case (Cons z zs)
  show ?case
  proof (cases "z = y")
    case True
    have "f y \<notin> f ` set zs"
      using Cons.prems(1) True by simp
    then have "f p \<noteq> f y" if "p \<in> set zs" for p
      using that by (metis imageI)
    then have "filter (\<lambda>p. f p = f y) zs = []"
      by (simp add: filter_empty_conv)
    then show ?thesis using True by simp
  next
    case False
    then have "y \<in> set zs" using Cons.prems(2) by simp
    moreover have "f z \<noteq> f y"
      using Cons.prems(1) \<open>y \<in> set zs\<close> by auto
    ultimately show ?thesis
      using Cons.IH Cons.prems(1) by simp
  qed
qed

lemma selected_records_single:
  assumes "distinct (row_keys rk rows)" and "index < length rows"
  shows "selected_records rk {|getRowKey rk (rows ! index) index|} rows = [rows ! index]"
proof -
  let ?f = "\<lambda>(i, item). getRowKey rk item i"
  have d: "distinct (map ?f (enumerate 0 rows))"
    using assms(1) by (simp add: row_keys_def)
  have m: "(index, rows ! index) \<in> set (enumerate 0 rows)"
    using assms(2) by (simp add: in_set_enumerate_eq)
  have "filter (\<lambda>p. ?f p = ?f (index, rows ! index)) (enumerate 0 rows) = [(index, rows ! index)]"
    by (rule filter_distinct_image[OF d m])
  moreover have "(\<lambda>(idx, item). getRowKey rk item idx |\<in>| {|getRowKey rk (rows ! index) index|})
                 = (\<lambda>p. ?f p = ?f (index, rows ! index))"
    by (auto simp: fun_eq_iff)
  ultimately show ?thesis
    by (simp add: selected_records_def)
qed

lemma selected_records_none: "selected_records rk {||} rows = []"
  by (simp add: selected_records_def)

lemma selected_records_all: "selected_records rk (fset_of_list (row_keys rk rows)) rows = rows"
proof -
  have "filter (\<lambda>(idx, item). getRowKey rk item idx |\<in>| fset_of_list (row_keys rk rows))
          (enumerate 0 rows) = enumerate 0 rows"
    by (rule filter_True) (force simp: row_keys_def fset_of_list.rep_eq)
  then show ?thesis
    by (simp add: selected_records_def)
qed

lemma handleSelectAll_reports_selection:
  "snd (handleSelectAll rt props st) =
     notify_select props
       (selected_records (prop_rowKey props) (selectedRows (fst (handleSelectAll rt props st)))
          (displayed rt props (fst (handleSelectAll rt props st))))"
  by (simp add: handleSelectAll_def selected_records_none selected_records_all)

text \<open>
  Claim C4. Let the displayed rows have pairwise different keys and let the owner have
  supplied the selection callback. Toggling the checkbox of a displayed row flips the
  membership of that row's key in the selection and of no other key, and leaves the
  display order as it is; the callback then receives the records of the displayed rows
  whose keys are selected, in display order, and so it does after a toggle of the
  header checkbox. From the empty selection, toggling a row (the first row, at index 0,
  among them) reports exactly that one record.
\<close>

theorem row_checkbox_toggle:
  assumes "distinct (row_keys (prop_rowKey props) (displayed rt props st))"
    and "index < length (displayed rt props st)"
    and "onRowSelect props"
  shows "(case row_checkbox_onChange rt props st index of
            (st', calls) \<Rightarrow>
              (getRowKey (prop_rowKey props) (displayed rt props st ! index) index
                 |\<in>| selectedRows st')
              = (getRowKey (prop_rowKey props) (displayed rt props st ! index) index
                 |\<notin>| selectedRows st)
            \<and> (\<forall>k. k \<noteq> getRowKey (prop_rowKey props) (displayed rt props st ! index) index
                  \<longrightarrow> (k |\<in>| selectedRows st') = (k |\<in>| selectedRows st))
            \<and> displayed rt props st' = displayed rt props st
            \<and> calls = [RowSelect (selected_records (prop_rowKey props) (selectedRows st')
                                    (displayed rt props st'))]
            \<and> (selectedRows st = {||} \<longrightarrow> calls = [RowSelect [displayed rt props st ! index]]))
       \<and> (case handleSelectAll rt props st of
            (st', calls) \<Rightarrow>
              calls = [RowSelect (selected_records (prop_rowKey props) (selectedRows st')
                                    (displayed rt props st'))])"
proof -
  have single: "selected_records (prop_rowKey props)
          {|getRowKey (prop_rowKey props) (displayed rt props st ! index) index|}
          (displayed rt props st) = [displayed rt props st ! index]"
    by (rule selected_records_single[OF assms(1,2)])
  have row: "case row_checkbox_onChange rt props st index of
            (st', calls) \<Rightarrow>
              (getRowKey (prop_rowKey props) (displayed rt props st ! index) index
                 |\<in>| selectedRows st')
              = (getRowKey (prop_rowKey props) (displayed rt props st ! index) index
                 |\<notin>| selectedRows st)
            \<and> (\<forall>k. k \<noteq> getRowKey (prop_rowKey props) (displayed rt props st ! index) index
                  \<longrightarrow> (k |\<in>| selectedRows st') = (k |\<in>| selectedRows st))
            \<and> displayed rt props st' = displayed rt props st
            \<and> calls = [RowSelect (selected_records (prop_rowKey props) (selectedRows st')
                                    (displayed rt props st'))]
            \<and> (selectedRows st = {||} \<longrightarrow> calls = [RowSelect [displayed rt props st ! index]])"
    using assms(3) single
    by (simp add: row_checkbox_onChange_def handleRowSelect_def Let_def notify_select_def)
  have "snd (handleSelectAll rt props st) =
     [RowSelect (selected_records (prop_rowKey props) (selectedRows (fst (handleSelectAll rt props st)))
          (displayed rt props (fst (handleSelectAll rt props st))))]"
    using handleSelectAll_reports_selection[of rt props st] assms(3)
    by (simp add: notify_select_def)
  then have all: "case handleSelectAll rt props st of
            (st', calls) \<Rightarrow>
              calls = [RowSelect (selected_records (prop_rowKey props) (selectedRows st')
                                    (displayed rt props st'))]"
    by (simp add: case_prod_beta)
  show ?thesis
    using row all by simp
qed

text \<open>Selecting the first of the three users, and deselecting it again.\<close>

theorem row_checkbox_toggle_witness:
  "row_checkbox_onChange example_runtime (tableProps testUsers) (selection {||}) 0
     = (selection {|JNumber (Fin 1)|},
        [RowSelect [[(''id'', JNumber (Fin 1)), (''name'', JString ''John Doe'')]]])
   \<and> snd (row_checkbox_onChange example_runtime (tableProps testUsers) (selection {||}) 0)
     = [RowSelect [displayed example_runtime (tableProps testUsers) (selection {||}) ! 0]]
   \<and> row_checkbox_onChange example_runtime (tableProps testUsers)
       (selection {|JNumber (Fin 1), JNumber (Fin 3)|}) 0
     = (selection {|JNumber (Fin 3)|},
        [RowSelect [[(''id'', JNumber (Fin 3)), (''name'', JString ''Bob Johnson'')]]])"
proof -
  have keys: "row_keys (prop_rowKey (tableProps testUsers))
                (displayed example_runtime (tableProps testUsers) (selection {||}))
              = [JNumber (Fin 1), JNumber (Fin 2), JNumber (Fin 3)]"
    by (simp add: table_eval)
  have d: "distinct (row_keys (prop_rowKey (tableProps testUsers))
                (displayed example_runtime (tableProps testUsers) (selection {||})))"
    unfolding keys by simp
  have i: "0 < length (displayed example_runtime (tableProps testUsers) (selection {||}))"
    by (simp add: table_eval)
  have c: "onRowSelect (tableProps testUsers)"
    by (simp add: tableProps_def)
  have e: "selectedRows (selection {||}) = {||}"
    by (simp add: selection_def)
  have "snd (row_checkbox_onChange example_runtime (tableProps testUsers) (selection {||}) 0)
     = [RowSelect [displayed example_runtime (tableProps testUsers) (selection {||}) ! 0]]"
    using row_checkbox_toggle[OF d i c, THEN conjunct1, unfolded case_prod_beta] e by blast
  moreover have "row_checkbox_onChange example_runtime (tableProps testUsers) (selection {||}) 0
     = (selection {|JNumber (Fin 1)|},
        [RowSelect [[(''id'', JNumber (Fin 1)), (''name'', JString ''John Doe'')]]])"
    by (simp add: row_checkbox_onChange_def handleRowSelect_def Let_def table_eval)
  moreover have "row_checkbox_onChange example_runtime (tableProps testUsers)
       (selection {|JNumber (Fin 1), JNumber (Fin 3)|}) 0
     = (selection {|JNumber (Fin 3)|},
        [RowSelect [[(''id'', JNumber (Fin 3)), (''name'', JString ''Bob Johnson'')]]])"
    by (simp add: row_checkbox_onChange_def handleRowSelect_def Let_def table_eval)
  ultimately show ?thesis by simp
qed


section \<open>Row activation\<close>

lemma find_found_iff: "(find P xs \<noteq> None) = list_ex P xs"
  by (induction xs) auto

lemma closest_checkbox_iff: "(closest_checkbox ev \<noteq> None) = inside_checkbox ev"
  unfolding closest_checkbox_def inside_checkbox_def by (rule find_found_iff)

text \<open>
  Claim C8. For every row of the rendered table, a click whose target is a checkbox
  input or lies inside one calls no row-click callback; any other click on the row
  calls the row-click callback (when the owner supplied one) once, with the record of
  that row and its index among the displayed rows.
\<close>

theorem row_click_skips_checkbox:
  assumes "index < length (displayed rt props st)"
  shows "(inside_checkbox ev \<longrightarrow> row_onClick rt props st index ev = [])
       \<and> (\<not> inside_checkbox ev \<and> onRowClick props \<longrightarrow>
            row_onClick rt props st index ev
              = [RowClick (displayed rt props st ! index) index])"
  by (auto simp: row_onClick_def handleRowClick_def closest_checkbox_iff[symmetric])

text \<open>A click on the checkbox of the first row, and a click on one of its cells.\<close>

theorem row_click_skips_checkbox_witness:
  "row_onClick example_runtime (tableProps testUsers) (selection {||}) 0
     \<lparr>target = \<lparr>localName = ''input'', typeAttr = Some ''checkbox''\<rparr>,
      ancestors = [\<lparr>localName = ''td'', typeAttr = None\<rparr>,
                   \<lparr>localName = ''tr'', typeAttr = None\<rparr>]\<rparr> = []
   \<and> row_onClick example_runtime (tableProps testUsers) (selection {||}) 0
     \<lparr>target = \<lparr>localName = ''td'', typeAttr = None\<rparr>,
      ancestors = [\<lparr>localName = ''tr'', typeAttr = None\<rparr>]\<rparr>
     = [RowClick [(''id'', JNumber (Fin 1)), (''name'', JString ''John Doe'')] 0]"
proof -
  let ?box = "\<lparr>target = \<lparr>localName = ''input'', typeAttr = Some ''checkbox''\<rparr>,
      ancestors = [\<lparr>localName = ''td'', typeAttr = None\<rparr>,
                   \<lparr>localName = ''tr'', typeAttr = None\<rparr>]\<rparr>"
  let ?cell = "\<lparr>target = \<lparr>localName = ''td'', typeAttr = None\<rparr>,
      ancestors = [\<lparr>localName = ''tr'', typeAttr = None\<rparr>]\<rparr>"
  have i: "0 < length (displayed example_runtime (tableProps testUsers) (selection {||}))"
    by (simp add: table_eval)
  have first: "displayed example_runtime (tableProps testUsers) (selection {||}) ! 0
                 = [(''id'', JNumber (Fin 1)), (''name'', JString ''John Doe'')]"
    by (simp add: table_eval)
  have "inside_checkbox ?box" and "\<not> inside_checkbox ?cell" and "onRowClick (tableProps testUsers)"
    by (simp_all add: inside_checkbox_def matches_checkbox_def tableProps_def)
  then show ?thesis
    using row_click_skips_checkbox[OF i, of ?box] row_click_skips_checkbox[OF i, of ?cell]
    by (simp add: first)
qed

section \<open>Presentation states\<close>

text \<open>
  Claim C9. The table renders one of three states, with this precedence: the busy
  placeholder when loading is set, whatever the data; otherwise the empty state with
  the configured message (\<open>No data available\<close> when none is configured) when the data
  sequence is empty; otherwise the populated table, with one body row per displayed
  record.
\<close>

theorem presentation_states:
  "(prop_loading props \<longrightarrow> DataTable_render rt props st = BusyPlaceholder)
   \<and> (\<not> prop_loading props \<and> data props = [] \<longrightarrow>
        DataTable_render rt props st = EmptyState (prop_emptyMessage props))
   \<and> (\<not> prop_loading props \<and> data props \<noteq> [] \<longrightarrow>
        (\<exists>header rows. DataTable_render rt props st = PopulatedTable header rows
                        \<and> map fst rows = displayed rt props st))
   \<and> (emptyMessage props = None \<longrightarrow> prop_emptyMessage props = ''No data available'')
   \<and> (\<forall>m. emptyMessage props = Some m \<longrightarrow> prop_emptyMessage props = m)"
proof -
  have "map fst (map (\<lambda>(index, rcd).
                     (rcd, getRowKey (prop_rowKey props) rcd index,
                      getRowKey (prop_rowKey props) rcd index |\<in>| selectedRows st))
                  (enumerate 0 (displayed rt props st))) = displayed rt props st"
    by (simp add: comp_def case_prod_beta map_snd_enumerate)
  then show ?thesis
    by (simp add: DataTable_render_def prop_emptyMessage_def)
qed

text \<open>Loading with and without data, no data with and without a message, one record.\<close>

theorem presentation_states_witness:
  "DataTable_render example_runtime ((tableProps testUsers)\<lparr>loading := Some True\<rparr>) (selection {||})
     = BusyPlaceholder
   \<and> DataTable_render example_runtime ((tableProps [])\<lparr>loading := Some True\<rparr>) (selection {||})
     = BusyPlaceholder
   \<and> DataTable_render example_runtime (tableProps []) (selection {||})
     = EmptyState ''No data available''
   \<and> DataTable_render example_runtime ((tableProps [])\<lparr>emptyMessage := Some ''No users found''\<rparr>)
        (selection {||})
     = EmptyState ''No users found''
   \<and> DataTable_render example_runtime
        (tableProps [[(''id'', JNumber (Fin 1)), (''name'', JString ''John Doe'')]])
        (selection {||})
     = PopulatedTable (Some False)
         [([(''id'', JNumber (Fin 1)), (''name'', JString ''John Doe'')], JNumber (Fin 1), False)]"
proof -
  have l: "prop_loading ((tableProps testUsers)\<lparr>loading := Some True\<rparr>)"
    and l': "prop_loading ((tableProps [])\<lparr>loading := Some True\<rparr>)"
    and n: "\<not> prop_loading (tableProps []) \<and> data (tableProps []) = []"
    and n': "\<not> prop_loading ((tableProps [])\<lparr>emptyMessage := Some ''No users found''\<rparr>)
             \<and> data ((tableProps [])\<lparr>emptyMessage := Some ''No users found''\<rparr>) = []"
    by (simp_all add: prop_loading_def tableProps_def)
  have "DataTable_render example_runtime
        (tableProps [[(''id'', JNumber (Fin 1)), (''name'', JString ''John Doe'')]])
        (selection {||})
     = PopulatedTable (Some False)
         [([(''id'', JNumber (Fin 1)), (''name'', JString ''John Doe'')], JNumber (Fin 1), False)]"
    by (simp add: DataTable_render_def prop_loading_def prop_selectable_def table_eval
        fcard_fempty)
  then show ?thesis
    using l l' n n'
      presentation_states[of "(tableProps testUsers)\<lparr>loading := Some True\<rparr>" example_runtime "selection {||}"]
      presentation_states[of "(tableProps [])\<lparr>loading := Some True\<rparr>" example_runtime "selection {||}"]
      presentation_states[of "tableProps []" example_runtime "selection {||}"]
      presentation_states[of "(tableProps [])\<lparr>emptyMessage := Some ''No users found''\<rparr>" example_runtime "selection {||}"]
    by (simp add: tableProps_def)
qed

section \<open>InputField: clear button and reveal toggle\<close>

lemma clear_shown_iff:
  "clearShown (InputField_render props st) =
     (flag (showClearButton props) \<and> inputValue st \<noteq> [] \<and> \<not> flag (fieldLoading props))"
  by (auto simp: InputField_render_def icons_container_def)

lemma uncontrolled_shown_value:
  "valueProp props = None \<Longrightarrow> shownValue (InputField_render props st) = inputValue st"
  by (simp add: InputField_render_def)

lemma mounted_shown_value:
  "shownValue (InputField_render props (mount props)) = inputValue (mount props)"
  by (simp add: InputField_render_def mount_def split: option.splits)

lemma handleClear_as_edit:
  "handleClear props st = handleChange props st []"
  and "fst (handleClear props st) = st\<lparr>inputValue := []\<rparr>"
  and "onChange props \<Longrightarrow> snd (handleClear props st) = [ChangeEvent []]"
  by (simp_all add: handleClear_def handleChange_def notify_change_def)

text \<open>
  Claim C6 at two inputs. The clear button depends on the edit buffer \<open>inputValue\<close>, which
  takes the owner's \<open>value\<close> on the first render only. A field mounted with the empty
  value whose owner then supplies \<open>x\<close> shows \<open>x\<close> and no clear button; a field mounted
  with \<open>x\<close> whose owner then supplies the empty value shows nothing to clear and the
  clear button.
\<close>

theorem clear_button_follows_edit_buffer:
  "shownValue (InputField_render (fieldProps Text (Some ''x'')) (mount (fieldProps Text (Some []))))
     = ''x''
   \<and> \<not> clearShown
        (InputField_render (fieldProps Text (Some ''x'')) (mount (fieldProps Text (Some []))))
   \<and> shownValue (InputField_render (fieldProps Text (Some [])) (mount (fieldProps Text (Some ''x''))))
     = []
   \<and> clearShown
        (InputField_render (fieldProps Text (Some [])) (mount (fieldProps Text (Some ''x''))))"
  by (simp add: InputField_render_def icons_container_def mount_def fieldProps_def flag_def
      isPassword_def prop_type_def)

text \<open>
  Claim C7. For a field of type password the reveal toggle is rendered exactly when
  loading is off; the input is masked (type password) on the first render; each
  activation of the toggle flips the rendered type between password and text; and
  toggling changes neither the edit buffer nor the value on display.
\<close>

theorem password_reveal_toggle:
  assumes "prop_type props = Password"
  shows "toggleShown (InputField_render props st) = (\<not> flag (fieldLoading props))
       \<and> actualType (InputField_render props (mount props)) = Password
       \<and> actualType (InputField_render props (togglePasswordVisibility st))
           = (if actualType (InputField_render props st) = Password then Text else Password)
       \<and> (actualType (InputField_render props st) = Password
            \<or> actualType (InputField_render props st) = Text)
       \<and> inputValue (togglePasswordVisibility st) = inputValue st
       \<and> shownValue (InputField_render props (togglePasswordVisibility st))
           = shownValue (InputField_render props st)"
  using assms
  by (simp add: InputField_render_def icons_container_def isPassword_def mount_def
      togglePasswordVisibility_def split: option.splits)

text \<open>The password field of the tests, toggled twice, and the same field while loading.\<close>

theorem password_reveal_toggle_witness:
  "InputField_render (fieldProps Password (Some ''password123''))
     (mount (fieldProps Password (Some ''password123'')))
     = \<lparr>actualType = Password, shownValue = ''password123'', inputDisabled = False,
        spinnerShown = False, clearShown = True, toggleShown = True\<rparr>
   \<and> InputField_render (fieldProps Password (Some ''password123''))
     (togglePasswordVisibility (mount (fieldProps Password (Some ''password123''))))
     = \<lparr>actualType = Text, shownValue = ''password123'', inputDisabled = False,
        spinnerShown = False, clearShown = True, toggleShown = True\<rparr>
   \<and> actualType (InputField_render (fieldProps Password (Some ''password123''))
        (togglePasswordVisibility
           (togglePasswordVisibility (mount (fieldProps Password (Some ''password123''))))))
     = Password
   \<and> \<not> toggleShown
        (InputField_render ((fieldProps Password (Some ''password123''))\<lparr>fieldLoading := Some True\<rparr>)
           (mount (fieldProps Password (Some ''password123''))))"
proof -
  let ?p = "fieldProps Password (Some ''password123'')"
  have p: "prop_type ?p = Password" and p': "prop_type (?p\<lparr>fieldLoading := Some True\<rparr>) = Password"
    by (simp_all add: prop_type_def fieldProps_def)
  have l: "flag (fieldLoading (?p\<lparr>fieldLoading := Some True\<rparr>))"
    by (simp add: flag_def)
  have "\<not> toggleShown (InputField_render (?p\<lparr>fieldLoading := Some True\<rparr>) (mount ?p))"
    using password_reveal_toggle[OF p', of "mount ?p"] l by simp
  moreover have "InputField_render ?p (mount ?p)
     = \<lparr>actualType = Password, shownValue = ''password123'', inputDisabled = False,
        spinnerShown = False, clearShown = True, toggleShown = True\<rparr>"
    and "InputField_render ?p (togglePasswordVisibility (mount ?p))
     = \<lparr>actualType = Text, shownValue = ''password123'', inputDisabled = False,
        spinnerShown = False, clearShown = True, toggleShown = True\<rparr>"
    and "actualType (InputField_render ?p
        (togglePasswordVisibility (togglePasswordVisibility (mount ?p)))) = Password"
    by (simp_all add: InputField_render_def icons_container_def mount_def fieldProps_def
        flag_def isPassword_def prop_type_def togglePasswordVisibility_def)
  ultimately show ?thesis by simp
qed

end
